theory Spec2Isabelle
  imports Main "HOL-Library.Word" "HOL-Library.Multiset"
begin

section \<open>The DNS front end of the sidecar (sidecar/dns/server.go)\<close>

text \<open>
  The query-to-record pipeline of \<^verbatim>\<open>server.go\<close> as HOL functions. The response message
  that the Go code mutates is passed in and returned; an error return is a value of type
  \<open>error\<close>; an index out of range is the outcome \<open>Panic\<close>; the process-wide random
  generator used by the shuffle is an explicit stream of draws.
\<close>

subsection \<open>Data model\<close>

type_synonym byte = "8 word"

text \<open>Go's \<^verbatim>\<open>net.IP\<close> is a byte slice. The nil slice is the empty list: none of the
  functions below produces an empty slice that is not nil.\<close>

type_synonym IP = "byte list"

text \<open>Response codes, classes and types of the DNS library, with their wire values.\<close>

datatype rcode = RcodeSuccess | RcodeFormatError | RcodeServerFailure | RcodeNameError

definition ClassINET :: "16 word" where "ClassINET = 1"
definition TypeA :: "16 word" where "TypeA = 1"
definition TypeAAAA :: "16 word" where "TypeAAAA = 28"
definition TypeSRV :: "16 word" where "TypeSRV = 33"

record Question =
  Name :: string
  Qtype :: "16 word"
  Qclass :: "16 word"

record RR_Header =
  Hdr_Name :: string
  Rrtype :: "16 word"
  Class :: "16 word"
  Ttl :: "32 word"

text \<open>The three record kinds the server builds: \<^verbatim>\<open>dns.A{Hdr, A}\<close>,
  \<^verbatim>\<open>dns.AAAA{Hdr, AAAA}\<close> and \<^verbatim>\<open>dns.SRV{Hdr, Priority, Weight, Port, Target}\<close>.\<close>

datatype RR =
    RR_A RR_Header IP
  | RR_AAAA RR_Header IP
  | RR_SRV RR_Header "16 word" "16 word" "16 word" string

record ServiceEndpoint =
  Type :: string
  Value :: string

record ServiceInstance =
  ID :: string
  Endpoint :: ServiceEndpoint

record InstanceFilter =
  ServiceName :: string
  Tags :: "string list"

datatype error =
    UnsupportedClass "16 word"
  | UnsupportedType "16 word"
  | InvalidDomainName string
  | ServiceNameNotIncluded string
  | MoreThanOneProtocol
  | DiscoveryError string
  | InstanceNotFound string
  | UnsupportedEndpointType string
  | CouldNotParseIP string
  | AtoiError string
  | URLParseError string
  | DiscoveryClientIsNil

text \<open>The part of \<^verbatim>\<open>dns.Msg\<close> that the handler reads and writes.\<close>

record Msg =
  Rcode :: rcode
  Answer :: "RR list"
  Extra :: "RR list"
  Authoritative :: bool
  RecursionAvailable :: bool

record Request =
  Req_Question :: "Question list"
  Req_Extra :: "RR list"

text \<open>\<^verbatim>\<open>Config\<close>: the discovery client is its one method, \<^verbatim>\<open>ListInstances\<close>.\<close>

record Config =
  DiscoveryClient :: "InstanceFilter \<Rightarrow> error + ServiceInstance list"
  Port :: "16 word"
  Domain :: string

text \<open>
  The functions of Go's standard library and of the DNS library that \<^verbatim>\<open>server.go\<close>
  calls and whose code is not part of the repository. They are parameters of the model,
  so every theorem holds for whatever they compute:
  \<^item> \<open>IsDomainName\<close>: \<^verbatim>\<open>dns.IsDomainName\<close>, the number of labels and the validity flag;
  \<^item> \<open>SplitDomainName\<close>: \<^verbatim>\<open>dns.SplitDomainName\<close>, the labels of a name;
  \<^item> \<open>SplitHostPort\<close>: \<^verbatim>\<open>net.SplitHostPort\<close>, \<open>None\<close> when it returns an error;
  \<^item> \<open>ParseIP\<close>: \<^verbatim>\<open>net.ParseIP\<close>, nil when the text is no IP literal;
  \<^item> \<open>urlParseHost\<close>: the \<^verbatim>\<open>Host\<close> field of \<^verbatim>\<open>url.Parse\<close>, \<open>None\<close> when it returns an error.
\<close>

record Lib =
  IsDomainName :: "string \<Rightarrow> int \<times> bool"
  SplitDomainName :: "string \<Rightarrow> string list"
  SplitHostPort :: "string \<Rightarrow> (string \<times> string) option"
  ParseIP :: "string \<Rightarrow> IP"
  urlParseHost :: "string \<Rightarrow> string option"

text \<open>A Go computation that may panic before it returns.\<close>

datatype 'a go = Panic | Return 'a

subsection \<open>Small library functions, written out\<close>

text \<open>\<^verbatim>\<open>strings.HasPrefix\<close>.\<close>

definition HasPrefix :: "string \<Rightarrow> string \<Rightarrow> bool" where
  "HasPrefix s p = (length p \<le> length s \<and> take (length p) s = p)"

text \<open>\<^verbatim>\<open>dns.IsFqdn\<close> and \<^verbatim>\<open>dns.Fqdn\<close> of the DNS library: a name is fully qualified when
  its last byte is a dot, and \<open>Fqdn\<close> appends a dot to a name that is not.\<close>

definition IsFqdn :: "string \<Rightarrow> bool" where
  "IsFqdn s = (s \<noteq> [] \<and> last s = CHR ''.'')"

definition Fqdn :: "string \<Rightarrow> string" where
  "Fqdn s = (if IsFqdn s then s else s @ ''.'')"

text \<open>\<^verbatim>\<open>strconv.Atoi\<close> on a 64-bit platform: an optional sign, then one or more decimal
  digits, and a value that fits \<^verbatim>\<open>int\<close>; anything else is an error.\<close>

definition isDigit :: "char \<Rightarrow> bool" where
  "isDigit c = (48 \<le> (of_char c :: nat) \<and> (of_char c :: nat) \<le> 57)"

fun parseDigits :: "string \<Rightarrow> int \<Rightarrow> int option" where
  "parseDigits [] n = Some n"
| "parseDigits (c # cs) n =
     (if isDigit c then parseDigits cs (n * 10 + (int (of_char c) - 48)) else None)"

definition Atoi :: "string \<Rightarrow> int option" where
  "Atoi s =
     (case s of
        [] \<Rightarrow> None
      | c # cs \<Rightarrow>
          (let neg = (c = CHR ''-'');
               ds = (if c = CHR ''-'' \<or> c = CHR ''+'' then cs else s)
           in if ds = [] then None
              else (case parseDigits ds 0 of
                      None \<Rightarrow> None
                    | Some n \<Rightarrow>
                        (let v = (if neg then - n else n)
                         in if - (2 ^ 63) \<le> v \<and> v < 2 ^ 63 then Some v else None))))"

text \<open>\<^verbatim>\<open>net.IP.To4\<close> and \<^verbatim>\<open>net.IP.To16\<close>: the 4-byte form of an address exists when it has
  4 bytes, or 16 bytes with the prefix of an IPv4-mapped address.\<close>

definition v4InV6Prefix :: "byte list" where
  "v4InV6Prefix = replicate 10 0 @ [0xff, 0xff]"

definition To4 :: "IP \<Rightarrow> IP" where
  "To4 ip =
     (if length ip = 4 then ip
      else if length ip = 16 \<and> take 12 ip = v4InV6Prefix then drop 12 ip
      else [])"

definition To16 :: "IP \<Rightarrow> IP" where
  "To16 ip =
     (if length ip = 4 then v4InV6Prefix @ ip
      else if length ip = 16 then ip
      else [])"

text \<open>\<^verbatim>\<open>rand.Intn\<close> on the process-wide generator: the generator is the stream of its
  future draws, and \<^verbatim>\<open>Intn(n)\<close> yields a number below \<open>n\<close> and advances the stream. It is
  only called with \<open>n > 0\<close>.\<close>

type_synonym rng = "nat \<Rightarrow> nat"

definition Intn :: "rng \<Rightarrow> nat \<Rightarrow> nat \<times> rng" where
  "Intn g n = (g 0 mod n, (\<lambda>k. g (Suc k)))"

text \<open>\<^verbatim>\<open>Msg.SetRcode\<close> rebuilds the reply header and stores the code; the answer and extra
  sections are left as they are.\<close>

definition SetRcode :: "Msg \<Rightarrow> rcode \<Rightarrow> Msg" where
  "SetRcode response rc = response\<lparr>Rcode := rc\<rparr>"

text \<open>Indexing a slice: out of range is a panic.\<close>

definition index :: "'a list \<Rightarrow> int \<Rightarrow> 'a option" where
  "index xs i = (if 0 \<le> i \<and> i < int (length xs) then Some (xs ! nat i) else None)"

subsection \<open>Endpoint address and port\<close>

definition splitHostPortTCPUDP :: "Lib \<Rightarrow> string \<Rightarrow> error + (IP \<times> 16 word)" where
  "splitHostPortTCPUDP lib v =
     (let (host, port) = (case SplitHostPort lib v of
                            Some (h, p) \<Rightarrow> (h, p)
                          | None \<Rightarrow> (v, ''0''));
          ip = ParseIP lib host
      in if ip = [] then Inl (CouldNotParseIP v)
         else (case Atoi port of
                 None \<Rightarrow> Inl (AtoiError port)
               | Some portNum \<Rightarrow> Inr (ip, word_of_int portNum)))"

definition splitHostPortHTTP :: "Lib \<Rightarrow> string \<Rightarrow> error + (IP \<times> 16 word)" where
  "splitHostPortHTTP lib v =
     (let isHTTP0 = HasPrefix v ''http://'';
          isHTTPS = HasPrefix v ''https://'';
          v' = (if \<not> isHTTPS \<and> \<not> isHTTP0 then ''http://'' @ v else v);
          isHTTP = (if \<not> isHTTPS \<and> \<not> isHTTP0 then True else isHTTP0)
      in (case urlParseHost lib v' of
            None \<Rightarrow> Inl (URLParseError v')
          | Some host \<Rightarrow>
              (case splitHostPortTCPUDP lib host of
                 Inl e \<Rightarrow> Inl e
               | Inr (ip, port) \<Rightarrow>
                   Inr (ip, if port = 0
                            then (if isHTTP then 80 else if isHTTPS then 443 else port)
                            else port))))"

definition splitHostPort :: "Lib \<Rightarrow> ServiceEndpoint \<Rightarrow> error + (IP \<times> 16 word)" where
  "splitHostPort lib endpoint =
     (if Type endpoint = ''tcp'' \<or> Type endpoint = ''udp''
        then splitHostPortTCPUDP lib (Value endpoint)
      else if Type endpoint = ''http'' \<or> Type endpoint = ''https''
        then splitHostPortHTTP lib (Value endpoint)
      else Inl (UnsupportedEndpointType (Type endpoint)))"

subsection \<open>Records\<close>

definition createARecord :: "string \<Rightarrow> IP \<Rightarrow> RR" where
  "createARecord name ip =
     RR_A \<lparr>Hdr_Name = name, Rrtype = TypeA, Class = ClassINET, Ttl = 0\<rparr> ip"

definition createAAAARecord :: "string \<Rightarrow> IP \<Rightarrow> RR" where
  "createAAAARecord name ip =
     RR_AAAA \<lparr>Hdr_Name = name, Rrtype = TypeAAAA, Class = ClassINET, Ttl = 0\<rparr> ip"

definition createSRVRecord :: "string \<Rightarrow> 16 word \<Rightarrow> string \<Rightarrow> RR" where
  "createSRVRecord name port target =
     RR_SRV \<lparr>Hdr_Name = name, Rrtype = TypeSRV, Class = ClassINET, Ttl = 0\<rparr> 0 0 port target"

text \<open>\<^verbatim>\<open>shuffleRecords\<close>: for every index \<open>i\<close> of the slice, in order, draw \<open>j\<close> below
  \<open>i + 1\<close> and exchange the elements at \<open>i\<close> and \<open>j\<close>.\<close>

definition shuffleStep :: "nat \<Rightarrow> 'a list \<times> rng \<Rightarrow> 'a list \<times> rng" where
  "shuffleStep i s =
     (case s of (records, g) \<Rightarrow>
        (case Intn g (i + 1) of (j, g') \<Rightarrow>
           (records[i := records ! j, j := records ! i], g')))"

definition shuffleRecords :: "rng \<Rightarrow> 'a list \<Rightarrow> 'a list \<times> rng" where
  "shuffleRecords g records = fold shuffleStep [0..<length records] (records, g)"

text \<open>The loop of \<^verbatim>\<open>createRecordsForInstances\<close> over the instances, with the two slices
  it appends to. An instance whose endpoint does not parse is skipped.\<close>

fun buildRecords ::
  "Lib \<Rightarrow> Config \<Rightarrow> Question \<Rightarrow> ServiceInstance list \<Rightarrow> RR list \<Rightarrow> RR list \<Rightarrow> RR list \<times> RR list"
where
  "buildRecords lib cfg question [] answer extra = (answer, extra)"
| "buildRecords lib cfg question (serviceInstance # rest) answer extra =
     (case splitHostPort lib (Endpoint serviceInstance) of
        Inl err \<Rightarrow> buildRecords lib cfg question rest answer extra
      | Inr (ip, port) \<Rightarrow>
          (if Qtype question = TypeA then
             (if To4 ip \<noteq> []
                then buildRecords lib cfg question rest
                       (answer @ [createARecord (Name question) (To4 ip)]) extra
              else buildRecords lib cfg question rest answer extra)
           else if Qtype question = TypeAAAA then
             (if To4 ip = []
                then buildRecords lib cfg question rest
                       (answer @ [createARecord (Name question) (To16 ip)]) extra
              else buildRecords lib cfg question rest answer extra)
           else if Qtype question = TypeSRV then
             (let target = ID serviceInstance @ ''.instance.'' @ Domain cfg @ ''.'';
                  answer' = answer @ [createSRVRecord (Name question) port target]
              in if To4 ip \<noteq> []
                   then buildRecords lib cfg question rest answer'
                          (extra @ [createARecord (Name question) (To4 ip)])
                 else buildRecords lib cfg question rest answer'
                          (extra @ [createAAAARecord (Name question) (To16 ip)]))
           else buildRecords lib cfg question rest answer extra))"

definition createRecordsForInstances ::
  "Lib \<Rightarrow> Config \<Rightarrow> rng \<Rightarrow> Question \<Rightarrow> Msg \<Rightarrow> ServiceInstance list
     \<Rightarrow> error option \<times> Msg \<times> rng"
where
  "createRecordsForInstances lib cfg g question response serviceInstances =
     (case buildRecords lib cfg question serviceInstances [] [] of (answer, extra) \<Rightarrow>
        if length answer = 0 then (None, SetRcode response RcodeNameError, g)
        else (case shuffleRecords g answer of (answer', g1) \<Rightarrow>
                (case shuffleRecords g1 extra of (extra', g2) \<Rightarrow>
                   (None,
                    SetRcode (response\<lparr>Answer := Answer response @ answer',
                                       Extra := Extra response @ extra'\<rparr>) RcodeSuccess,
                    g2))))"

subsection \<open>Catalog lookups\<close>

text \<open>The loop that splits the tokens into the protocol filter and the tags; \<open>None\<close> is
  the return on a second protocol token.\<close>

fun splitTagsProtocol :: "string list \<Rightarrow> string \<Rightarrow> string list \<Rightarrow> (string \<times> string list) option"
where
  "splitTagsProtocol [] protocol tags = Some (protocol, tags)"
| "splitTagsProtocol (tag # rest) protocol tags =
     (if tag = ''tcp'' \<or> tag = ''udp'' \<or> tag = ''http'' \<or> tag = ''https''
        then (if protocol \<noteq> '''' then None else splitTagsProtocol rest tag tags)
      else splitTagsProtocol rest protocol (tags @ [tag]))"

text \<open>The protocol filter compacts the slice in place: survivor number \<open>k\<close> is written
  to position \<open>k\<close>, and the slice is cut to the first \<open>k\<close> positions.\<close>

definition protocolFilterStep ::
  "string \<Rightarrow> nat \<Rightarrow> ServiceInstance list \<times> nat \<Rightarrow> ServiceInstance list \<times> nat"
where
  "protocolFilterStep protocol i s =
     (case s of (serviceInstances, k) \<Rightarrow>
        if Type (Endpoint (serviceInstances ! i)) = protocol
          then (serviceInstances[k := serviceInstances ! i], Suc k)
        else (serviceInstances, k))"

definition applyProtocolFilter :: "string \<Rightarrow> ServiceInstance list \<Rightarrow> ServiceInstance list" where
  "applyProtocolFilter protocol serviceInstances =
     (case fold (protocolFilterStep protocol) [0..<length serviceInstances] (serviceInstances, 0)
      of (ys, k) \<Rightarrow> take k ys)"

definition retrieveInstancesForServiceQuery ::
  "Config \<Rightarrow> string \<Rightarrow> Msg \<Rightarrow> string list \<Rightarrow> (error + ServiceInstance list) \<times> Msg"
where
  "retrieveInstancesForServiceQuery cfg serviceName response tagOrProtocol =
     (case splitTagsProtocol tagOrProtocol '''' [] of
        None \<Rightarrow> (Inl MoreThanOneProtocol, SetRcode response RcodeFormatError)
      | Some (protocol, tags) \<Rightarrow>
          (case DiscoveryClient cfg \<lparr>ServiceName = serviceName, Tags = tags\<rparr> of
             Inl err \<Rightarrow> (Inl err, SetRcode response RcodeServerFailure)
           | Inr serviceInstances \<Rightarrow>
               (if protocol \<noteq> ''''
                  then (Inr (applyProtocolFilter protocol serviceInstances), response)
                else (Inr serviceInstances, response))))"

text \<open>The scan for the instance with the requested id returns the first match.\<close>

fun findInstance :: "string \<Rightarrow> ServiceInstance list \<Rightarrow> ServiceInstance option" where
  "findInstance instanceID [] = None"
| "findInstance instanceID (serviceInstance # rest) =
     (if ID serviceInstance = instanceID then Some serviceInstance
      else findInstance instanceID rest)"

definition retrieveInstancesForInstanceQuery ::
  "Config \<Rightarrow> string \<Rightarrow> Msg \<Rightarrow> (error + ServiceInstance list) \<times> Msg"
where
  "retrieveInstancesForInstanceQuery cfg instanceID response =
     (case DiscoveryClient cfg \<lparr>ServiceName = '''', Tags = []\<rparr> of
        Inl err \<Rightarrow> (Inl err, SetRcode response RcodeServerFailure)
      | Inr serviceInstances \<Rightarrow>
          (case findInstance instanceID serviceInstances of
             Some serviceInstance \<Rightarrow> (Inr [serviceInstance], response)
           | None \<Rightarrow> (Inl (InstanceNotFound instanceID), SetRcode response RcodeNameError)))"

subsection \<open>The name parser\<close>

text \<open>The branch taken when the label before the last is \<^verbatim>\<open>service\<close>.\<close>

definition serviceBranch ::
  "Config \<Rightarrow> Question \<Rightarrow> Msg \<Rightarrow> int \<Rightarrow> string list \<Rightarrow> ((error + ServiceInstance list) \<times> Msg) go"
where
  "serviceBranch cfg question response numberOfLabels arr =
     (if Qtype question = TypeSRV \<and> numberOfLabels = 4 then
        (case index arr 0 of
           None \<Rightarrow> Panic
         | Some l0 \<Rightarrow>
             (if HasPrefix l0 ''_'' then
                (case index arr 1 of
                   None \<Rightarrow> Panic
                 | Some l1 \<Rightarrow>
                     (if HasPrefix l1 ''_''
                        then Return (retrieveInstancesForServiceQuery cfg (drop 1 l0) response
                                       [drop 1 l1])
                      else (case index arr (numberOfLabels - 3) of
                              None \<Rightarrow> Panic
                            | Some serviceName \<Rightarrow>
                                Return (retrieveInstancesForServiceQuery cfg serviceName response
                                          (take (nat (numberOfLabels - 3)) arr)))))
              else (case index arr (numberOfLabels - 3) of
                      None \<Rightarrow> Panic
                    | Some serviceName \<Rightarrow>
                        Return (retrieveInstancesForServiceQuery cfg serviceName response
                                  (take (nat (numberOfLabels - 3)) arr)))))
      else (case index arr (numberOfLabels - 3) of
              None \<Rightarrow> Panic
            | Some serviceName \<Rightarrow>
                Return (retrieveInstancesForServiceQuery cfg serviceName response
                          (take (nat (numberOfLabels - 3)) arr))))"

definition retrieveServices ::
  "Lib \<Rightarrow> Config \<Rightarrow> Question \<Rightarrow> Msg \<Rightarrow> ((error + ServiceInstance list) \<times> Msg) go"
where
  "retrieveServices lib cfg question response =
     (case IsDomainName lib (Name question) of (numberOfLabels, isValidDomain) \<Rightarrow>
        if \<not> isValidDomain
          then Return (Inl (InvalidDomainName (Name question)),
                       SetRcode response RcodeFormatError)
        else
          (let arr = SplitDomainName lib (Name question)
           in if length arr = 1 \<or> length arr = 2
                then Return (Inl (ServiceNameNotIncluded (Name question)),
                             SetRcode response RcodeNameError)
              else (case index arr (numberOfLabels - 2) of
                      None \<Rightarrow> Panic
                    | Some l \<Rightarrow>
                        if l = ''service''
                          then serviceBranch cfg question response numberOfLabels arr
                        else if l = ''instance''
                                \<and> (Qtype question = TypeA \<or> Qtype question = TypeAAAA)
                                \<and> numberOfLabels = 3
                          then (case index arr 0 of
                                  None \<Rightarrow> Panic
                                | Some instanceID \<Rightarrow>
                                    Return (retrieveInstancesForInstanceQuery cfg instanceID
                                              response))
                        else Return (Inr [], response))))"

subsection \<open>The response assembler\<close>

definition handleQuestion ::
  "Lib \<Rightarrow> Config \<Rightarrow> rng \<Rightarrow> Question \<Rightarrow> Msg \<Rightarrow> (error option \<times> Msg \<times> rng) go"
where
  "handleQuestion lib cfg g question response =
     (if Qclass question \<noteq> ClassINET
        then Return (Some (UnsupportedClass (Qclass question)),
                     SetRcode response RcodeServerFailure, g)
      else if Qtype question \<noteq> TypeA \<and> Qtype question \<noteq> TypeAAAA \<and> Qtype question \<noteq> TypeSRV
        then Return (Some (UnsupportedType (Qtype question)),
                     SetRcode response RcodeServerFailure, g)
      else (case retrieveServices lib cfg question response of
              Panic \<Rightarrow> Panic
            | Return (Inl err, response') \<Rightarrow> Return (Some err, response', g)
            | Return (Inr serviceInstances, response') \<Rightarrow>
                Return (createRecordsForInstances lib cfg g question response' serviceInstances)))"

text \<open>The loop of \<^verbatim>\<open>handleRequest\<close> over the questions: it stops at the first question
  whose handler returns an error.\<close>

fun handleQuestions ::
  "Lib \<Rightarrow> Config \<Rightarrow> rng \<Rightarrow> Question list \<Rightarrow> Msg \<Rightarrow> (Msg \<times> rng) go"
where
  "handleQuestions lib cfg g [] response = Return (response, g)"
| "handleQuestions lib cfg g (question # rest) response =
     (case handleQuestion lib cfg g question response of
        Panic \<Rightarrow> Panic
      | Return (Some err, response', g') \<Rightarrow> Return (response', g')
      | Return (None, response', g') \<Rightarrow> handleQuestions lib cfg g' rest response')"

text \<open>\<^verbatim>\<open>handleRequest\<close>: the reply starts as \<^verbatim>\<open>SetReply\<close> leaves it (code success, no
  answers), takes over the extra section of the request, and is written after the loop.\<close>

definition handleRequest :: "Lib \<Rightarrow> Config \<Rightarrow> rng \<Rightarrow> Request \<Rightarrow> (Msg \<times> rng) go" where
  "handleRequest lib cfg g request =
     handleQuestions lib cfg g (Req_Question request)
       \<lparr>Rcode = RcodeSuccess, Answer = [], Extra = Req_Extra request,
        Authoritative = True, RecursionAvailable = False\<rparr>"

subsection \<open>Server construction\<close>

text \<open>\<^verbatim>\<open>validate\<close>, called by \<^verbatim>\<open>NewServer\<close> on the configuration it is given: a nil
  discovery client is an error; otherwise the domain is replaced by its fully qualified
  form, and this is the configuration the server keeps and every request is handled
  with. The client of the configuration given to \<^verbatim>\<open>NewServer\<close> may be nil, so it is an
  option here.\<close>

definition validate ::
  "(InstanceFilter \<Rightarrow> error + ServiceInstance list) option \<Rightarrow> 16 word \<Rightarrow> string
     \<Rightarrow> error + Config"
where
  "validate client port domain =
     (case client of
        None \<Rightarrow> Inl DiscoveryClientIsNil
      | Some c \<Rightarrow> Inr \<lparr>DiscoveryClient = c, Port = port, Domain = Fqdn domain\<rparr>)"

subsection \<open>Vocabulary of the properties\<close>

text \<open>The instances of a list whose endpoint parses, each with its address and port, in
  the order of the list.\<close>

fun parsedInstances :: "Lib \<Rightarrow> ServiceInstance list \<Rightarrow> (ServiceInstance \<times> IP \<times> 16 word) list"
where
  "parsedInstances lib [] = []"
| "parsedInstances lib (serviceInstance # rest) =
     (case splitHostPort lib (Endpoint serviceInstance) of
        Inl err \<Rightarrow> parsedInstances lib rest
      | Inr (ip, port) \<Rightarrow> (serviceInstance, ip, port) # parsedInstances lib rest)"

text \<open>The SRV record and the address record that the loop builds for one parsed
  instance.\<close>

definition srvAnswer :: "Config \<Rightarrow> Question \<Rightarrow> ServiceInstance \<times> IP \<times> 16 word \<Rightarrow> RR" where
  "srvAnswer cfg question p =
     (case p of (serviceInstance, ip, port) \<Rightarrow>
        RR_SRV \<lparr>Hdr_Name = Name question, Rrtype = TypeSRV, Class = ClassINET, Ttl = 0\<rparr>
          0 0 port (ID serviceInstance @ ''.instance.'' @ Domain cfg @ ''.''))"

definition srvExtra :: "Question \<Rightarrow> ServiceInstance \<times> IP \<times> 16 word \<Rightarrow> RR" where
  "srvExtra question p =
     (case p of (serviceInstance, ip, port) \<Rightarrow>
        if To4 ip = []
          then RR_AAAA \<lparr>Hdr_Name = Name question, Rrtype = TypeAAAA, Class = ClassINET, Ttl = 0\<rparr>
                 (To16 ip)
        else RR_A \<lparr>Hdr_Name = Name question, Rrtype = TypeA, Class = ClassINET, Ttl = 0\<rparr>
               (To4 ip))"

text \<open>The record expected in the answer to an AAAA question, and the instances that get
  one.\<close>

definition aaaaAnswer :: "Question \<Rightarrow> ServiceInstance \<times> IP \<times> 16 word \<Rightarrow> RR" where
  "aaaaAnswer question p =
     (case p of (serviceInstance, ip, port) \<Rightarrow>
        RR_A \<lparr>Hdr_Name = Name question, Rrtype = TypeA, Class = ClassINET, Ttl = 0\<rparr> (To16 ip))"

definition hasNo4ByteForm :: "ServiceInstance \<times> IP \<times> 16 word \<Rightarrow> bool" where
  "hasNo4ByteForm p = (case p of (serviceInstance, ip, port) \<Rightarrow> To4 ip = [])"

text \<open>What a client sees of a reply when the order of the records is left out.\<close>

definition msgView :: "Msg \<Rightarrow> rcode \<times> RR multiset \<times> RR multiset \<times> bool \<times> bool" where
  "msgView m = (Rcode m, mset (Answer m), mset (Extra m), Authoritative m, RecursionAvailable m)"

definition replyView ::
  "(Msg \<times> rng) go \<Rightarrow> (rcode \<times> RR multiset \<times> RR multiset \<times> bool \<times> bool) go" where
  "replyView r = (case r of Panic \<Rightarrow> Panic | Return (m, g) \<Rightarrow> Return (msgView m))"

text \<open>The response code a question handler leaves behind, and whether it returned an
  error.\<close>

definition questionRcode :: "(error option \<times> Msg \<times> rng) go \<Rightarrow> rcode option" where
  "questionRcode r = (case r of Panic \<Rightarrow> None | Return (err, m, g) \<Rightarrow> Some (Rcode m))"

definition questionFailed :: "(error option \<times> Msg \<times> rng) go \<Rightarrow> bool" where
  "questionFailed r = (case r of Panic \<Rightarrow> True | Return (err, m, g) \<Rightarrow> err \<noteq> None)"

text \<open>What a client sees of the outcome of one question.\<close>

definition questionView ::
  "(error option \<times> Msg \<times> rng) go
     \<Rightarrow> (error option \<times> rcode \<times> RR multiset \<times> RR multiset \<times> bool \<times> bool) go" where
  "questionView r = (case r of Panic \<Rightarrow> Panic | Return (err, m, g) \<Rightarrow> Return (err, msgView m))"

subsection \<open>A test catalog and test doubles of the library functions\<close>

text \<open>
  The concrete inputs of the examples below: a discovery client that knows two instances
  of the service \<^verbatim>\<open>reviews\<close>, and library functions that behave as Go's do on the plain
  texts of the examples (names without escaped dots, host and port without brackets, three
  address literals, URLs without a path).
\<close>

definition reviews1 :: ServiceInstance where
  "reviews1 = \<lparr>ID = ''abc123'', Endpoint = \<lparr>Type = ''http'', Value = ''192.168.1.10:9080''\<rparr>\<rparr>"

definition reviews2 :: ServiceInstance where
  "reviews2 = \<lparr>ID = ''def456'', Endpoint = \<lparr>Type = ''tcp'', Value = ''2001:db8::1''\<rparr>\<rparr>"

definition reviews3 :: ServiceInstance where
  "reviews3 = \<lparr>ID = ''ghi789'', Endpoint = \<lparr>Type = ''tcp'', Value = ''localhost:8080''\<rparr>\<rparr>"

definition testClient ::
  "ServiceInstance list \<Rightarrow> InstanceFilter \<Rightarrow> error + ServiceInstance list" where
  "testClient catalog f =
     (if ServiceName f = ''reviews'' \<or> ServiceName f = [] then Inr catalog else Inr [])"

definition testConfig :: "ServiceInstance list \<Rightarrow> string \<Rightarrow> Config" where
  "testConfig catalog domain =
     \<lparr>DiscoveryClient = testClient catalog, Port = 53, Domain = domain\<rparr>"

fun splitLabels :: "string \<Rightarrow> string \<Rightarrow> string list" where
  "splitLabels [] cur = (if cur = [] then [] else [cur])"
| "splitLabels (c # cs) cur =
     (if c = CHR ''.'' then cur # splitLabels cs [] else splitLabels cs (cur @ [c]))"

fun splitColon :: "string \<Rightarrow> string \<Rightarrow> (string \<times> string) option" where
  "splitColon [] host = None"
| "splitColon (c # cs) host =
     (if c = CHR '':''
        then (if List.member cs (CHR '':'') then None else Some (host, cs))
      else splitColon cs (host @ [c]))"

definition testParseIP :: "string \<Rightarrow> IP" where
  "testParseIP s =
     (if s = ''192.168.1.10'' then v4InV6Prefix @ [192, 168, 1, 10]
      else if s = ''10.0.0.5'' then v4InV6Prefix @ [10, 0, 0, 5]
      else if s = ''2001:db8::1''
        then [0x20, 0x01, 0x0d, 0xb8, 0, 0, 0, 0, 0, 0, 0, 0, 0, 0, 0, 1]
      else [])"

definition testUrlParseHost :: "string \<Rightarrow> string option" where
  "testUrlParseHost s =
     (if HasPrefix s ''http://'' then Some (drop 7 s)
      else if HasPrefix s ''https://'' then Some (drop 8 s)
      else None)"

definition testLib :: Lib where
  "testLib =
     \<lparr>IsDomainName = (\<lambda>s. (int (length (splitLabels s [])),
                             list_all (\<lambda>l. length l \<le> 63) (splitLabels s []))),
      SplitDomainName = (\<lambda>s. splitLabels s []),
      SplitHostPort = (\<lambda>s. splitColon s []),
      ParseIP = testParseIP,
      urlParseHost = testUrlParseHost\<rparr>"

definition testRng :: rng where
  "testRng = (\<lambda>k. 0)"

definition emptyReply :: Msg where
  "emptyReply = \<lparr>Rcode = RcodeSuccess, Answer = [], Extra = [],
                  Authoritative = True, RecursionAvailable = False\<rparr>"

section \<open>Properties\<close>

subsection \<open>The shuffle permutes\<close>

lemma shuffleStep_mset:
  assumes "i < length xs"
  shows "mset (fst (shuffleStep i (xs, g))) = mset xs
         \<and> length (fst (shuffleStep i (xs, g))) = length xs"
proof -
  have "g 0 mod (i + 1) < i + 1" by simp
  then have j: "g 0 mod (i + 1) < length xs" using assms by linarith
  have sw: "mset (xs[i := xs ! (g 0 mod (i + 1)), g 0 mod (i + 1) := xs ! i]) = mset xs"
    using mset_swap [OF j assms] .
  show ?thesis using sw
    by (simp add: shuffleStep_def Intn_def)
qed

lemma fold_shuffleStep_mset:
  "\<forall>i \<in> set is. i < length xs \<Longrightarrow>
     mset (fst (fold shuffleStep is (xs, g))) = mset xs
     \<and> length (fst (fold shuffleStep is (xs, g))) = length xs"
proof (induction "is" arbitrary: xs g)
  case Nil
  then show ?case by simp
next
  case (Cons i "is")
  obtain ys h where st: "shuffleStep i (xs, g) = (ys, h)" by (cases "shuffleStep i (xs, g)")
  have i: "i < length xs" using Cons.prems by simp
  have ys: "mset ys = mset xs" "length ys = length xs"
    using shuffleStep_mset [OF i, of g] by (simp_all add: st)
  have "\<forall>k \<in> set is. k < length ys" using Cons.prems by (simp add: ys)
  from Cons.IH [OF this, of h]
  have "mset (fst (fold shuffleStep is (ys, h))) = mset xs
     \<and> length (fst (fold shuffleStep is (ys, h))) = length xs" by (simp only: ys)
  then show ?case by (simp only: fold_simps st)
qed

lemma shuffleRecords_mset: "mset (fst (shuffleRecords g xs)) = mset xs"
proof -
  have "\<forall>i \<in> set [0..<length xs]. i < length xs" by simp
  from fold_shuffleStep_mset [OF this, of g] show ?thesis
    by (simp only: shuffleRecords_def)
qed

lemma shuffleRecords_length: "length (fst (shuffleRecords g xs)) = length xs"
  using shuffleRecords_mset [of g xs] by (metis size_mset)

subsection \<open>The record loop, by question type\<close>

lemma buildRecords_SRV:
  "Qtype question = TypeSRV \<Longrightarrow>
     buildRecords lib cfg question xs answer extra =
       (answer @ map (srvAnswer cfg question) (parsedInstances lib xs),
        extra @ map (srvExtra question) (parsedInstances lib xs))"
proof (induction xs arbitrary: answer extra)
  case Nil
  then show ?case by simp
next
  case (Cons x xs)
  have ne: "TypeSRV \<noteq> TypeA" "TypeSRV \<noteq> TypeAAAA"
    by (simp_all add: TypeSRV_def TypeA_def TypeAAAA_def)
  show ?case
  proof (cases "splitHostPort lib (Endpoint x)")
    case (Inl e)
    then show ?thesis using Cons by simp
  next
    case (Inr r)
    obtain ip port where r: "r = (ip, port)" by (cases r)
    show ?thesis using Cons Inr r ne
      by (simp add: srvAnswer_def srvExtra_def createSRVRecord_def createARecord_def
            createAAAARecord_def Let_def)
  qed
qed

lemma buildRecords_AAAA:
  "Qtype question = TypeAAAA \<Longrightarrow>
     buildRecords lib cfg question xs answer extra =
       (answer @ map (aaaaAnswer question) (filter hasNo4ByteForm (parsedInstances lib xs)),
        extra)"
proof (induction xs arbitrary: answer extra)
  case Nil
  then show ?case by simp
next
  case (Cons x xs)
  have ne: "TypeAAAA \<noteq> TypeA"
    by (simp_all add: TypeA_def TypeAAAA_def)
  show ?case
  proof (cases "splitHostPort lib (Endpoint x)")
    case (Inl e)
    then show ?thesis using Cons by simp
  next
    case (Inr r)
    obtain ip port where r: "r = (ip, port)" by (cases r)
    show ?thesis using Cons Inr r ne
      by (simp add: aaaaAnswer_def hasNo4ByteForm_def createARecord_def)
  qed
qed

lemma buildRecords_none_parsed:
  "parsedInstances lib xs = [] \<Longrightarrow>
     buildRecords lib cfg question xs answer extra = (answer, extra)"
proof (induction xs arbitrary: answer extra)
  case Nil
  then show ?case by simp
next
  case (Cons x xs)
  then show ?case by (cases "splitHostPort lib (Endpoint x)") (auto split: prod.splits)
qed

subsection \<open>The in-place protocol filter\<close>

lemma fold_protocolFilterStep:
  "m \<le> length xs \<Longrightarrow>
     (case fold (protocolFilterStep p) [0..<m] (xs, 0) of (ys, k) \<Rightarrow>
        k \<le> m \<and> length ys = length xs
        \<and> take k ys = filter (\<lambda>i. Type (Endpoint i) = p) (take m xs)
        \<and> drop m ys = drop m xs)"
proof (induction m)
  case 0
  then show ?case by simp
next
  case (Suc m)
  obtain ys k where st: "fold (protocolFilterStep p) [0..<m] (xs, 0) = (ys, k)"
    by (cases "fold (protocolFilterStep p) [0..<m] (xs, 0)")
  have m: "m < length xs" using Suc.prems by simp
  from Suc.IH st m
  have k: "k \<le> m" and len: "length ys = length xs"
    and tk: "take k ys = filter (\<lambda>i. Type (Endpoint i) = p) (take m xs)"
    and dr: "drop m ys = drop m xs"
    by simp_all
  have ym: "ys ! m = xs ! m"
    using dr m len by (metis Cons_nth_drop_Suc nth_via_drop)
  have txs: "take (Suc m) xs = take m xs @ [xs ! m]"
    using m by (simp add: take_Suc_conv_app_nth)
  show ?case
  proof (cases "Type (Endpoint (xs ! m)) = p")
    case True
    have klen: "k < length ys" using k m len by simp
    have t1: "take (Suc k) (ys[k := xs ! m]) = take k ys @ [xs ! m]"
      using klen by (simp add: take_Suc_conv_app_nth)
    have d1: "drop (Suc m) (ys[k := xs ! m]) = drop (Suc m) xs"
      using k dr by (metis drop_Suc drop_update_cancel le_imp_less_Suc tl_drop)
    have step: "fold (protocolFilterStep p) [0..<Suc m] (xs, 0) = (ys[k := xs ! m], Suc k)"
      using True ym by (simp add: st protocolFilterStep_def)
    show ?thesis unfolding step using True k len tk t1 d1 txs
      by simp
  next
    case False
    have d1: "drop (Suc m) ys = drop (Suc m) xs"
      using dr by (metis drop_Suc tl_drop)
    have step: "fold (protocolFilterStep p) [0..<Suc m] (xs, 0) = (ys, k)"
      using False ym by (simp add: st protocolFilterStep_def)
    show ?thesis unfolding step using False k len tk d1 txs
      by simp
  qed
qed

lemma applyProtocolFilter_filter:
  "applyProtocolFilter p xs = filter (\<lambda>i. Type (Endpoint i) = p) xs"
proof -
  obtain ys k where st: "fold (protocolFilterStep p) [0..<length xs] (xs, 0) = (ys, k)"
    by (cases "fold (protocolFilterStep p) [0..<length xs] (xs, 0)")
  from fold_protocolFilterStep [of "length xs" xs p] st
  have "take k ys = filter (\<lambda>i. Type (Endpoint i) = p) (take (length xs) xs)" by simp
  then show ?thesis by (simp add: applyProtocolFilter_def st)
qed

subsection \<open>Unfolding sets\<close>

lemmas test_defs = testLib_def testConfig_def testClient_def testParseIP_def testUrlParseHost_def
  testRng_def emptyReply_def reviews1_def reviews2_def reviews3_def

lemmas const_defs = ClassINET_def TypeA_def TypeAAAA_def TypeSRV_def

lemmas parse_defs = retrieveServices_def serviceBranch_def index_def HasPrefix_def
  retrieveInstancesForServiceQuery_def retrieveInstancesForInstanceQuery_def SetRcode_def

subsection \<open>Record synthesis on the response\<close>

lemma shuffleRecords_Nil: "shuffleRecords g [] = ([], g)"
  by (simp add: shuffleRecords_def)

lemma createRecordsForInstances_none:
  "fst (buildRecords lib cfg question xs [] []) = [] \<Longrightarrow>
     createRecordsForInstances lib cfg g question response xs =
       (None, response\<lparr>Rcode := RcodeNameError\<rparr>, g)"
  by (cases "buildRecords lib cfg question xs [] []")
     (simp add: createRecordsForInstances_def SetRcode_def)

lemma createRecordsForInstances_some:
  assumes "buildRecords lib cfg question xs [] [] = (answer, extra)" and "answer \<noteq> []"
  shows "createRecordsForInstances lib cfg g question response xs =
           (None,
            response\<lparr>Answer := Answer response @ fst (shuffleRecords g answer),
                      Extra := Extra response
                                 @ fst (shuffleRecords (snd (shuffleRecords g answer)) extra),
                      Rcode := RcodeSuccess\<rparr>,
            snd (shuffleRecords (snd (shuffleRecords g answer)) extra))"
  using assms
  by (simp add: createRecordsForInstances_def SetRcode_def split: prod.splits)

lemma createRecordsForInstances_view:
  assumes "buildRecords lib cfg question xs [] [] = (answer, extra)"
  shows "fst (createRecordsForInstances lib cfg g question response xs) = None
     \<and> msgView (fst (snd (createRecordsForInstances lib cfg g question response xs))) =
         (if answer = [] then RcodeNameError else RcodeSuccess,
          mset (Answer response) + (if answer = [] then {#} else mset answer),
          mset (Extra response) + (if answer = [] then {#} else mset extra),
          Authoritative response, RecursionAvailable response)"
proof (cases "answer = []")
  case True
  then show ?thesis
    using createRecordsForInstances_none [of lib cfg question xs g response] assms
    by (simp add: msgView_def)
next
  case False
  then show ?thesis
    using createRecordsForInstances_some [OF assms False, of g response]
    by (simp add: msgView_def shuffleRecords_mset)
qed

subsection \<open>The reply does not depend on the draws of the shuffle\<close>

lemma msgView_SetRcode:
  "msgView m1 = msgView m2 \<Longrightarrow> msgView (SetRcode m1 rc) = msgView (SetRcode m2 rc)"
  by (simp add: msgView_def SetRcode_def)

lemma serviceQuery_view:
  assumes "msgView m1 = msgView m2"
  shows "map_prod id msgView (retrieveInstancesForServiceQuery cfg sn m1 toks) =
         map_prod id msgView (retrieveInstancesForServiceQuery cfg sn m2 toks)"
  using assms msgView_SetRcode [OF assms]
  by (simp add: retrieveInstancesForServiceQuery_def split: option.splits sum.splits prod.splits)

lemma instanceQuery_view:
  assumes "msgView m1 = msgView m2"
  shows "map_prod id msgView (retrieveInstancesForInstanceQuery cfg i m1) =
         map_prod id msgView (retrieveInstancesForInstanceQuery cfg i m2)"
  using assms msgView_SetRcode [OF assms]
  by (simp add: retrieveInstancesForInstanceQuery_def split: option.splits sum.splits)

lemma serviceBranch_cases:
  "(\<forall>m. serviceBranch cfg q m n arr = Panic)
   \<or> (\<exists>sn toks. \<forall>m. serviceBranch cfg q m n arr =
          Return (retrieveInstancesForServiceQuery cfg sn m toks))"
proof (cases "index arr (n - 3)")
  case None
  note n3 = None
  show ?thesis
  proof (cases "Qtype q = TypeSRV \<and> n = 4")
    case False
    then show ?thesis using n3 by (auto simp add: serviceBranch_def)
  next
    case True
    note srv = True
    show ?thesis
    proof (cases "index arr 0")
      case None
      then show ?thesis using srv by (simp add: serviceBranch_def)
    next
      case (Some l0)
      note i0 = Some
      show ?thesis
      proof (cases "HasPrefix l0 ''_''")
        case False
        then show ?thesis using srv i0 n3 by (simp add: serviceBranch_def)
      next
        case True
        note p0 = True
        show ?thesis
        proof (cases "index arr 1")
          case None
          then show ?thesis using srv i0 p0 by (simp add: serviceBranch_def)
        next
          case (Some l1)
          then show ?thesis using srv i0 p0 n3
            by (cases "HasPrefix l1 ''_''") (auto simp add: serviceBranch_def)
        qed
      qed
    qed
  qed
next
  case (Some serviceName)
  note n3 = Some
  show ?thesis
  proof (cases "Qtype q = TypeSRV \<and> n = 4")
    case False
    then show ?thesis using n3 by (auto simp add: serviceBranch_def)
  next
    case True
    note srv = True
    show ?thesis
    proof (cases "index arr 0")
      case None
      then show ?thesis using srv by (simp add: serviceBranch_def)
    next
      case (Some l0)
      note i0 = Some
      show ?thesis
      proof (cases "HasPrefix l0 ''_''")
        case False
        then show ?thesis using srv i0 n3 by (auto simp add: serviceBranch_def)
      next
        case True
        note p0 = True
        show ?thesis
        proof (cases "index arr 1")
          case None
          then show ?thesis using srv i0 p0 by (simp add: serviceBranch_def)
        next
          case (Some l1)
          then show ?thesis using srv i0 p0 n3
            by (cases "HasPrefix l1 ''_''") (auto simp add: serviceBranch_def)
        qed
      qed
    qed
  qed
qed

lemma serviceBranch_view:
  assumes "msgView m1 = msgView m2"
  shows "map_go (map_prod id msgView) (serviceBranch cfg q m1 n arr) =
         map_go (map_prod id msgView) (serviceBranch cfg q m2 n arr)"
  using serviceBranch_cases [of cfg q n arr] serviceQuery_view [OF assms, of cfg]
  by auto

lemma retrieveServices_view:
  assumes "msgView m1 = msgView m2"
  shows "map_go (map_prod id msgView) (retrieveServices lib cfg q m1) =
         map_go (map_prod id msgView) (retrieveServices lib cfg q m2)"
proof -
  obtain n valid where d: "IsDomainName lib (Name q) = (n, valid)"
    by (cases "IsDomainName lib (Name q)")
  let ?arr = "SplitDomainName lib (Name q)"
  show ?thesis
  proof (cases "\<not> valid \<or> length ?arr = 1 \<or> length ?arr = 2")
    case True
    then show ?thesis using msgView_SetRcode [OF assms]
      by (auto simp add: retrieveServices_def d Let_def)
  next
    case False
    note ok = False
    show ?thesis
    proof (cases "index ?arr (n - 2)")
      case None
      then show ?thesis using ok by (simp add: retrieveServices_def d Let_def)
    next
      case (Some l)
      note l = Some
      show ?thesis
      proof (cases "l = ''service''")
        case True
        then show ?thesis using ok l serviceBranch_view [OF assms, of cfg q n ?arr]
          by (simp add: retrieveServices_def d Let_def)
      next
        case False
        note ns = False
        show ?thesis
        proof (cases "l = ''instance'' \<and> (Qtype q = TypeA \<or> Qtype q = TypeAAAA) \<and> n = 3")
          case True
          then show ?thesis using ok l ns instanceQuery_view [OF assms, of cfg]
            by (cases "index ?arr 0") (simp_all add: retrieveServices_def d Let_def)
        next
          case False
          then show ?thesis using ok l ns assms
            by (auto simp add: retrieveServices_def d Let_def)
        qed
      qed
    qed
  qed
qed

lemma createRecordsForInstances_any_draws:
  assumes "msgView m1 = msgView m2"
  shows "fst (createRecordsForInstances lib cfg g1 q m1 xs) =
           fst (createRecordsForInstances lib cfg g2 q m2 xs)
     \<and> msgView (fst (snd (createRecordsForInstances lib cfg g1 q m1 xs))) =
         msgView (fst (snd (createRecordsForInstances lib cfg g2 q m2 xs)))"
proof -
  obtain answer extra where b: "buildRecords lib cfg q xs [] [] = (answer, extra)"
    by (cases "buildRecords lib cfg q xs [] []")
  show ?thesis
    using createRecordsForInstances_view [OF b, of g1 m1]
      createRecordsForInstances_view [OF b, of g2 m2] assms
    by (simp add: msgView_def)
qed

lemma handleQuestion_any_draws:
  assumes "msgView m1 = msgView m2"
  shows "questionView (handleQuestion lib cfg g1 q m1) =
         questionView (handleQuestion lib cfg g2 q m2)"
proof (cases "Qclass q \<noteq> ClassINET
              \<or> (Qtype q \<noteq> TypeA \<and> Qtype q \<noteq> TypeAAAA \<and> Qtype q \<noteq> TypeSRV)")
  case True
  then show ?thesis using msgView_SetRcode [OF assms]
    by (auto simp add: handleQuestion_def questionView_def)
next
  case False
  note ok = False
  show ?thesis
  proof (cases "retrieveServices lib cfg q m1")
    case Panic
    then have "retrieveServices lib cfg q m2 = Panic"
      using retrieveServices_view [OF assms, of lib cfg q]
      by (cases "retrieveServices lib cfg q m2") simp_all
    then show ?thesis using ok Panic by (auto simp add: handleQuestion_def questionView_def)
  next
    case (Return r1)
    obtain res a where r1: "r1 = (res, a)" by (cases r1)
    from Return r1 retrieveServices_view [OF assms, of lib cfg q]
    obtain b where r2: "retrieveServices lib cfg q m2 = Return (res, b)"
      and ab: "msgView a = msgView b"
      by (cases "retrieveServices lib cfg q m2") auto
    show ?thesis
    proof (cases res)
      case (Inl err)
      then show ?thesis using ok Return r1 r2 ab
        by (auto simp add: handleQuestion_def questionView_def)
    next
      case (Inr xs)
      obtain e1 n1 h1 where c1: "createRecordsForInstances lib cfg g1 q a xs = (e1, n1, h1)"
        by (cases "createRecordsForInstances lib cfg g1 q a xs")
      obtain e2 n2 h2 where c2: "createRecordsForInstances lib cfg g2 q b xs = (e2, n2, h2)"
        by (cases "createRecordsForInstances lib cfg g2 q b xs")
      have "e1 = e2 \<and> msgView n1 = msgView n2"
        using createRecordsForInstances_any_draws [OF ab, of lib cfg g1 q xs g2]
        by (simp add: c1 c2)
      then show ?thesis using ok Return r1 r2 Inr c1 c2
        by (auto simp add: handleQuestion_def questionView_def)
    qed
  qed
qed

lemma handleQuestions_any_draws:
  "msgView m1 = msgView m2 \<Longrightarrow>
     replyView (handleQuestions lib cfg g1 qs m1) = replyView (handleQuestions lib cfg g2 qs m2)"
proof (induction qs arbitrary: m1 m2 g1 g2)
  case Nil
  then show ?case by (simp add: replyView_def)
next
  case (Cons q qs)
  note v = handleQuestion_any_draws [OF Cons.prems, of lib cfg g1 q g2]
  show ?case
  proof (cases "handleQuestion lib cfg g1 q m1")
    case Panic
    then have "handleQuestion lib cfg g2 q m2 = Panic"
      using v by (cases "handleQuestion lib cfg g2 q m2") (auto simp add: questionView_def)
    then show ?thesis using Panic by (simp add: replyView_def)
  next
    case (Return r1)
    obtain e a h1 where r1: "r1 = (e, a, h1)" by (cases r1)
    from Return r1 v obtain b h2 where r2: "handleQuestion lib cfg g2 q m2 = Return (e, b, h2)"
      and ab: "msgView a = msgView b"
      by (cases "handleQuestion lib cfg g2 q m2") (auto simp add: questionView_def)
    show ?thesis
    proof (cases e)
      case None
      then show ?thesis using Return r1 r2 Cons.IH [OF ab, of h1 h2] by simp
    next
      case (Some err)
      then show ?thesis using Return r1 r2 ab by (simp add: replyView_def)
    qed
  qed
qed

subsection \<open>Parsing an endpoint\<close>

lemma HasPrefix_append: "HasPrefix s p \<Longrightarrow> s = p @ drop (length p) s"
  unfolding HasPrefix_def by (metis append_take_drop_id)

lemma HasPrefix_https_not_http:
  assumes "HasPrefix v ''https://''"
  shows "\<not> HasPrefix v ''http://''"
proof -
  obtain w where v: "v = ''https://'' @ w"
    using HasPrefix_append [OF assms] by blast
  show ?thesis unfolding v by (simp add: HasPrefix_def)
qed

lemma HasPrefix_http_added:
  "HasPrefix (''http://'' @ v) ''http://''" "\<not> HasPrefix (''http://'' @ v) ''https://''"
  by (simp_all add: HasPrefix_def)

lemma Atoi_zero: "Atoi ''0'' = Some 0"
  by (simp add: Atoi_def isDigit_def)

lemma splitHostPortTCPUDP_no_port:
  "SplitHostPort lib v = None \<Longrightarrow> ParseIP lib v \<noteq> [] \<Longrightarrow>
     splitHostPortTCPUDP lib v = Inr (ParseIP lib v, 0)"
  by (simp add: splitHostPortTCPUDP_def Atoi_zero)

lemma splitHostPortTCPUDP_port:
  "SplitHostPort lib v = Some (host, port) \<Longrightarrow> ParseIP lib host \<noteq> [] \<Longrightarrow>
     Atoi port = Some n \<Longrightarrow> splitHostPortTCPUDP lib v = Inr (ParseIP lib host, word_of_int n)"
  by (simp add: splitHostPortTCPUDP_def)

lemma splitHostPortTCPUDP_bad_host:
  "ParseIP lib (case SplitHostPort lib v of None \<Rightarrow> v | Some (h, p) \<Rightarrow> h) = [] \<Longrightarrow>
     splitHostPortTCPUDP lib v = Inl (CouldNotParseIP v)"
  by (simp add: splitHostPortTCPUDP_def split: option.splits prod.splits)

lemma splitHostPortHTTP_default_scheme:
  "\<not> HasPrefix v ''http://'' \<Longrightarrow> \<not> HasPrefix v ''https://'' \<Longrightarrow>
     splitHostPortHTTP lib v = splitHostPortHTTP lib (''http://'' @ v)"
  using HasPrefix_http_added [of v]
  by (simp add: splitHostPortHTTP_def Let_def cong: option.case_cong)

lemma splitHostPortHTTP_http_no_port:
  "HasPrefix v ''http://'' \<Longrightarrow> urlParseHost lib v = Some host \<Longrightarrow>
     SplitHostPort lib host = None \<Longrightarrow> ParseIP lib host \<noteq> [] \<Longrightarrow>
     splitHostPortHTTP lib v = Inr (ParseIP lib host, 80)"
  by (simp add: splitHostPortHTTP_def Let_def splitHostPortTCPUDP_no_port)

lemma splitHostPortHTTP_https_no_port:
  "HasPrefix v ''https://'' \<Longrightarrow> urlParseHost lib v = Some host \<Longrightarrow>
     SplitHostPort lib host = None \<Longrightarrow> ParseIP lib host \<noteq> [] \<Longrightarrow>
     splitHostPortHTTP lib v = Inr (ParseIP lib host, 443)"
  using HasPrefix_https_not_http [of v]
  by (simp add: splitHostPortHTTP_def Let_def splitHostPortTCPUDP_no_port)

lemma buildRecords_skip:
  "splitHostPort lib (Endpoint serviceInstance) = Inl e \<Longrightarrow>
     buildRecords lib cfg question (serviceInstance # rest) answer extra =
       buildRecords lib cfg question rest answer extra"
  by simp

subsection \<open>SRV questions\<close>

text \<open>What the record loop and the response get for a question of type SRV, in terms of
  the domain the configuration holds.\<close>

lemma createRecordsForInstances_SRV:
  assumes "Qtype question = TypeSRV"
  shows "buildRecords lib cfg question serviceInstances [] [] =
           (map (srvAnswer cfg question) (parsedInstances lib serviceInstances),
            map (srvExtra question) (parsedInstances lib serviceInstances))
     \<and> fst (createRecordsForInstances lib cfg g question response serviceInstances) = None
     \<and> mset (Answer (fst (snd (createRecordsForInstances lib cfg g question response
                                 serviceInstances)))) =
         mset (Answer response)
           + mset (map (srvAnswer cfg question) (parsedInstances lib serviceInstances))
     \<and> mset (Extra (fst (snd (createRecordsForInstances lib cfg g question response
                                serviceInstances)))) =
         mset (Extra response)
           + mset (map (srvExtra question) (parsedInstances lib serviceInstances))
     \<and> length (Answer (fst (snd (createRecordsForInstances lib cfg g question response
                                   serviceInstances)))) =
         length (Answer response) + length (parsedInstances lib serviceInstances)
     \<and> length (Extra (fst (snd (createRecordsForInstances lib cfg g question response
                                  serviceInstances)))) =
         length (Extra response) + length (parsedInstances lib serviceInstances)"
proof -
  let ?P = "parsedInstances lib serviceInstances"
  let ?m = "fst (snd (createRecordsForInstances lib cfg g question response serviceInstances))"
  have b: "buildRecords lib cfg question serviceInstances [] [] =
             (map (srvAnswer cfg question) ?P, map (srvExtra question) ?P)"
    using buildRecords_SRV [OF assms, of lib cfg serviceInstances "[]" "[]"] by simp
  have v: "fst (createRecordsForInstances lib cfg g question response serviceInstances) = None"
    "mset (Answer ?m) = mset (Answer response) + mset (map (srvAnswer cfg question) ?P)"
    "mset (Extra ?m) = mset (Extra response) + mset (map (srvExtra question) ?P)"
    using createRecordsForInstances_view [OF b, of g response]
    by (auto simp add: msgView_def)
  have la: "length (Answer ?m) = length (Answer response) + length ?P"
    using v(2) by (metis length_map size_mset size_union)
  have le: "length (Extra ?m) = length (Extra response) + length ?P"
    using v(3) by (metis length_map size_mset size_union)
  show ?thesis using b v la le by simp
qed

lemma Fqdn_ends_with_dot: "\<exists>s. Fqdn d = s @ ''.''"
proof (cases "IsFqdn d")
  case True
  then have "d = butlast d @ ''.''"
    by (metis IsFqdn_def append_butlast_last_id)
  then show ?thesis using True by (auto simp add: Fqdn_def)
next
  case False
  then show ?thesis by (simp add: Fqdn_def)
qed

lemma validate_srv_target_two_dots:
  assumes "validate client port d = Inr cfg"
  shows "\<exists>s. srvAnswer cfg question (serviceInstance, ip, p) =
              RR_SRV \<lparr>Hdr_Name = Name question, Rrtype = TypeSRV, Class = ClassINET, Ttl = 0\<rparr>
                0 0 p (ID serviceInstance @ ''.instance.'' @ s @ ''..'')"
proof -
  from assms have "Domain cfg = Fqdn d"
    by (auto simp add: validate_def split: option.splits)
  then obtain s where "Domain cfg = s @ ''.''" using Fqdn_ends_with_dot [of d] by auto
  then show ?thesis by (simp add: srvAnswer_def)
qed

subsection \<open>The SRV shorthand\<close>

text \<open>
  Claim C1. The SRV question \<^verbatim>\<open>_reviews._http.example.com.\<close> has four labels, the two
  leading ones with an underscore, and the catalog holds the instance \<^verbatim>\<open>abc123\<close> of
  \<^verbatim>\<open>reviews\<close> at \<^verbatim>\<open>192.168.1.10:9080\<close>. The claim expects one SRV record and one extra A
  record. The parser tests for the shorthand only when the label before the last is
  \<^verbatim>\<open>service\<close>; here that label is \<^verbatim>\<open>example\<close>, so no lookup is made and the reply is a name
  error without records.
\<close>

theorem srv_shorthand_without_service_label:
  "handleRequest testLib (testConfig [reviews1] ''example.com.'') testRng
     \<lparr>Req_Question = [\<lparr>Name = ''_reviews._http.example.com.'', Qtype = TypeSRV,
                         Qclass = ClassINET\<rparr>],
      Req_Extra = []\<rparr> =
   Return (\<lparr>Rcode = RcodeNameError, Answer = [], Extra = [],
            Authoritative = True, RecursionAvailable = False\<rparr>, testRng)"
  by (simp add: handleRequest_def handleQuestion_def parse_defs createRecordsForInstances_def
      const_defs testLib_def)

subsection \<open>SRV answers\<close>

text \<open>
  Claim C2. The claim gives the target of an SRV record as the instance id, the label
  \<^verbatim>\<open>instance\<close> and the domain, ended by one dot. A server configured with the domain
  \<^verbatim>\<open>test\<close> keeps the domain \<^verbatim>\<open>test.\<close>, and the record loop puts one more dot behind it: for
  the question \<^verbatim>\<open>reviews.service.test.\<close> of type SRV and the instance \<^verbatim>\<open>abc123\<close> at
  \<^verbatim>\<open>192.168.1.10:9080\<close>, the reply holds one SRV record, with port 9080 and priority and
  weight 0, and one extra A record, as the claim says, but the target of the SRV record
  is \<^verbatim>\<open>abc123.instance.test..\<close>, which is not the name \<^verbatim>\<open>abc123.instance.test.\<close> of the
  claim.
\<close>

theorem srv_target_has_two_trailing_dots:
  "validate (Some (testClient [reviews1])) 53 ''test'' = Inr (testConfig [reviews1] ''test.'')
   \<and> handleRequest testLib (testConfig [reviews1] ''test.'') testRng
       \<lparr>Req_Question = [\<lparr>Name = ''reviews.service.test.'', Qtype = TypeSRV,
                           Qclass = ClassINET\<rparr>],
        Req_Extra = []\<rparr> =
     Return (\<lparr>Rcode = RcodeSuccess,
              Answer = [RR_SRV \<lparr>Hdr_Name = ''reviews.service.test.'', Rrtype = TypeSRV,
                                Class = ClassINET, Ttl = 0\<rparr>
                          0 0 9080 ''abc123.instance.test..''],
              Extra = [RR_A \<lparr>Hdr_Name = ''reviews.service.test.'', Rrtype = TypeA,
                              Class = ClassINET, Ttl = 0\<rparr> [192, 168, 1, 10]],
              Authoritative = True, RecursionAvailable = False\<rparr>, testRng)
   \<and> ''abc123.instance.test..'' \<noteq> ''abc123.instance.test.''"
proof -
  let ?q = "\<lparr>Name = ''reviews.service.test.'', Qtype = TypeSRV, Qclass = ClassINET\<rparr>"
  let ?cfg = "testConfig [reviews1] ''test.''"
  have v: "validate (Some (testClient [reviews1])) 53 ''test'' = Inr ?cfg"
    by (simp add: validate_def Fqdn_def IsFqdn_def testConfig_def)
  have r: "retrieveServices testLib ?cfg ?q emptyReply = Return (Inr [reviews1], emptyReply)"
    by (simp add: parse_defs testLib_def testConfig_def testClient_def const_defs)
  have s: "splitHostPort testLib (Endpoint reviews1) =
             Inr (v4InV6Prefix @ [192, 168, 1, 10], 9080)"
    by (simp add: splitHostPort_def splitHostPortTCPUDP_def splitHostPortHTTP_def HasPrefix_def
        test_defs Atoi_def isDigit_def)
  have i: "ID reviews1 = ''abc123''" by (simp add: reviews1_def)
  have b: "buildRecords testLib ?cfg ?q [reviews1] [] [] =
             ([RR_SRV \<lparr>Hdr_Name = ''reviews.service.test.'', Rrtype = TypeSRV,
                        Class = ClassINET, Ttl = 0\<rparr> 0 0 9080 ''abc123.instance.test..''],
              [RR_A \<lparr>Hdr_Name = ''reviews.service.test.'', Rrtype = TypeA,
                      Class = ClassINET, Ttl = 0\<rparr> [192, 168, 1, 10]])"
    by (simp add: s i const_defs To4_def v4InV6Prefix_def createARecord_def createSRVRecord_def
        testConfig_def)
  have ne: "[RR_SRV \<lparr>Hdr_Name = ''reviews.service.test.'', Rrtype = TypeSRV,
                        Class = ClassINET, Ttl = 0\<rparr> 0 0 9080 ''abc123.instance.test..''] \<noteq> []"
    by simp
  have sh: "\<And>g x. shuffleRecords g [x :: RR] = ([x], (\<lambda>k. g (Suc k)))"
    by (simp add: shuffleRecords_def shuffleStep_def Intn_def)
  have c: "createRecordsForInstances testLib ?cfg testRng ?q emptyReply [reviews1] =
             (None,
              \<lparr>Rcode = RcodeSuccess,
               Answer = [RR_SRV \<lparr>Hdr_Name = ''reviews.service.test.'', Rrtype = TypeSRV,
                                 Class = ClassINET, Ttl = 0\<rparr>
                           0 0 9080 ''abc123.instance.test..''],
               Extra = [RR_A \<lparr>Hdr_Name = ''reviews.service.test.'', Rrtype = TypeA,
                               Class = ClassINET, Ttl = 0\<rparr> [192, 168, 1, 10]],
               Authoritative = True, RecursionAvailable = False\<rparr>, testRng)"
    using createRecordsForInstances_some [OF b ne, of testRng emptyReply]
    by (simp add: sh emptyReply_def testRng_def)
  have h: "handleQuestion testLib ?cfg testRng ?q emptyReply =
             Return (createRecordsForInstances testLib ?cfg testRng ?q emptyReply [reviews1])"
    by (simp add: handleQuestion_def r)
  show ?thesis
    using v h c by (simp add: handleRequest_def emptyReply_def)
qed

subsection \<open>AAAA answers\<close>

text \<open>
  Claim C3. For a question of type AAAA, the answer gets a record exactly for the parsed
  instances whose address has no 4-byte form (\<open>To4\<close> is nil); the record is the one built
  by \<open>createARecord\<close>, of record type A, class INET and TTL 0, and it carries the 16-byte
  form of the address. Instances whose address has a 4-byte form add nothing, and the
  extra section is left as it is.
\<close>

theorem aaaa_answers_only_without_4_byte_form:
  assumes "Qtype question = TypeAAAA"
  shows "buildRecords lib cfg question serviceInstances [] [] =
           (map (aaaaAnswer question)
              (filter hasNo4ByteForm (parsedInstances lib serviceInstances)), [])
     \<and> aaaaAnswer question (serviceInstance, ip, port) =
         createARecord (Name question) (To16 ip)
     \<and> createARecord (Name question) (To16 ip) =
         RR_A \<lparr>Hdr_Name = Name question, Rrtype = TypeA, Class = ClassINET, Ttl = 0\<rparr> (To16 ip)
     \<and> hasNo4ByteForm (serviceInstance, ip, port) = (To4 ip = [])
     \<and> mset (Answer (fst (snd (createRecordsForInstances lib cfg g question response
                                 serviceInstances)))) =
         mset (Answer response)
           + mset (map (aaaaAnswer question)
                     (filter hasNo4ByteForm (parsedInstances lib serviceInstances)))
     \<and> mset (Extra (fst (snd (createRecordsForInstances lib cfg g question response
                                serviceInstances)))) =
         mset (Extra response)"
proof -
  let ?P = "filter hasNo4ByteForm (parsedInstances lib serviceInstances)"
  let ?m = "fst (snd (createRecordsForInstances lib cfg g question response serviceInstances))"
  have b: "buildRecords lib cfg question serviceInstances [] [] =
             (map (aaaaAnswer question) ?P, [])"
    using buildRecords_AAAA [OF assms, of lib cfg serviceInstances "[]" "[]"] by simp
  have v: "mset (Answer ?m) = mset (Answer response) + mset (map (aaaaAnswer question) ?P)"
    "mset (Extra ?m) = mset (Extra response)"
    using createRecordsForInstances_view [OF b, of g response]
    by (cases "?P = []"; simp add: msgView_def)+
  have c: "aaaaAnswer question (serviceInstance, ip, port) =
             createARecord (Name question) (To16 ip)"
    by (simp add: aaaaAnswer_def createARecord_def)
  have d: "createARecord (Name question) (To16 ip) =
         RR_A \<lparr>Hdr_Name = Name question, Rrtype = TypeA, Class = ClassINET, Ttl = 0\<rparr> (To16 ip)"
    by (simp add: createARecord_def)
  have e: "hasNo4ByteForm (serviceInstance, ip, port) = (To4 ip = [])"
    by (simp add: hasNo4ByteForm_def)
  show ?thesis using b v c d e by simp
qed

theorem aaaa_answers_only_without_4_byte_form_witness:
  "mset (Answer (fst (snd (createRecordsForInstances testLib (testConfig [] ''test.'') testRng
       \<lparr>Name = ''reviews.service.test.'', Qtype = TypeAAAA, Qclass = ClassINET\<rparr> emptyReply
       [reviews1, reviews3, reviews2])))) =
     {# RR_A \<lparr>Hdr_Name = ''reviews.service.test.'', Rrtype = TypeA, Class = ClassINET,
               Ttl = 0\<rparr> [0x20, 0x01, 0x0d, 0xb8, 0, 0, 0, 0, 0, 0, 0, 0, 0, 0, 0, 1] #}"
proof -
  let ?q = "\<lparr>Name = ''reviews.service.test.'', Qtype = TypeAAAA, Qclass = ClassINET\<rparr>"
  have a: "Qtype ?q = TypeAAAA" by simp
  have p: "parsedInstances testLib [reviews1, reviews3, reviews2] =
             [(reviews1, v4InV6Prefix @ [192, 168, 1, 10], 9080),
              (reviews2, [0x20, 0x01, 0x0d, 0xb8, 0, 0, 0, 0, 0, 0, 0, 0, 0, 0, 0, 1], 0)]"
    by (simp add: splitHostPort_def splitHostPortTCPUDP_def splitHostPortHTTP_def HasPrefix_def
        test_defs Atoi_def isDigit_def)
  note t = aaaa_answers_only_without_4_byte_form [OF a, of testLib "testConfig [] ''test.''"
        "[reviews1, reviews3, reviews2]" _ _ _ testRng emptyReply,
        THEN conjunct2, THEN conjunct2, THEN conjunct2, THEN conjunct2, THEN conjunct1]
  show ?thesis
    using t [unfolded p]
    by (simp add: aaaaAnswer_def hasNo4ByteForm_def To4_def To16_def v4InV6Prefix_def
        emptyReply_def)
qed

subsection \<open>Question class\<close>

text \<open>
  Claim C4, as the code has it. For every question whose class is not INET the handler
  returns an error and sets the response code to server failure (the claim says format
  error); nothing else of the response changes and no lookup is made.
\<close>

theorem disallowed_class_is_server_failure:
  "Qclass question \<noteq> ClassINET \<Longrightarrow>
     handleQuestion lib cfg g question response =
       Return (Some (UnsupportedClass (Qclass question)),
               response\<lparr>Rcode := RcodeServerFailure\<rparr>, g)"
  by (simp add: handleQuestion_def SetRcode_def)

theorem disallowed_class_is_server_failure_witness:
  "(3 :: 16 word) \<noteq> ClassINET
   \<and> handleQuestion testLib (testConfig [reviews1] ''test.'') testRng
       \<lparr>Name = ''reviews.service.test.'', Qtype = TypeA, Qclass = 3\<rparr> emptyReply =
       Return (Some (UnsupportedClass 3), emptyReply\<lparr>Rcode := RcodeServerFailure\<rparr>, testRng)"
proof -
  have h: "Qclass \<lparr>Name = ''reviews.service.test.'', Qtype = TypeA, Qclass = 3\<rparr> \<noteq> ClassINET"
    by (simp add: ClassINET_def)
  show ?thesis
    using disallowed_class_is_server_failure [OF h, of testLib "testConfig [reviews1] ''test.''"
        testRng emptyReply] h
    by simp
qed

text \<open>The claim as stated fails for a question of class CHAOS (3).\<close>

theorem disallowed_class_not_format_error:
  "Qclass \<lparr>Name = ''reviews.service.test.'', Qtype = TypeA, Qclass = 3\<rparr> \<noteq> ClassINET
   \<and> questionRcode (handleQuestion testLib (testConfig [reviews1] ''test.'') testRng
        \<lparr>Name = ''reviews.service.test.'', Qtype = TypeA, Qclass = 3\<rparr> emptyReply)
       \<noteq> Some RcodeFormatError"
  by (simp add: handleQuestion_def SetRcode_def questionRcode_def ClassINET_def)

subsection \<open>SRV questions for an instance\<close>

text \<open>
  Claim C5, as the code has it. For every question of class INET and type SRV whose name
  has the shape of an instance query (exactly three labels, the second being
  \<^verbatim>\<open>instance\<close>), the parser takes neither branch: no lookup is made, no record is built,
  the response code is set to name error (the claim says server failure) and the handler
  returns without an error.
\<close>

theorem srv_instance_query_is_name_error:
  assumes "Qclass question = ClassINET"
    and "Qtype question = TypeSRV"
    and "IsDomainName lib (Name question) = (3, True)"
    and "SplitDomainName lib (Name question) = [instanceID, ''instance'', domain]"
  shows "handleQuestion lib cfg g question response =
           Return (None, response\<lparr>Rcode := RcodeNameError\<rparr>, g)"
  using assms
  by (simp add: handleQuestion_def parse_defs createRecordsForInstances_def const_defs)

theorem srv_instance_query_is_name_error_witness:
  "handleQuestion testLib (testConfig [reviews1, reviews2] ''test.'') testRng
     \<lparr>Name = ''abc123.instance.test.'', Qtype = TypeSRV, Qclass = ClassINET\<rparr> emptyReply =
     Return (None, emptyReply\<lparr>Rcode := RcodeNameError\<rparr>, testRng)"
proof -
  let ?q = "\<lparr>Name = ''abc123.instance.test.'', Qtype = TypeSRV, Qclass = ClassINET\<rparr>"
  have a: "Qclass ?q = ClassINET" by simp
  have b: "Qtype ?q = TypeSRV" by simp
  have c: "IsDomainName testLib (Name ?q) = (3, True)" by (simp add: testLib_def)
  have d: "SplitDomainName testLib (Name ?q) = [''abc123'', ''instance'', ''test'']"
    by (simp add: testLib_def)
  show ?thesis
    using srv_instance_query_is_name_error [OF a b c d] by simp
qed

text \<open>The claim as stated fails for \<^verbatim>\<open>abc123.instance.test.\<close>: the code is not server
  failure, and the handler reports no error.\<close>

theorem srv_instance_query_not_server_failure:
  "questionRcode (handleQuestion testLib (testConfig [reviews1, reviews2] ''test.'') testRng
     \<lparr>Name = ''abc123.instance.test.'', Qtype = TypeSRV, Qclass = ClassINET\<rparr> emptyReply)
     \<noteq> Some RcodeServerFailure
   \<and> \<not> questionFailed (handleQuestion testLib (testConfig [reviews1, reviews2] ''test.'') testRng
     \<lparr>Name = ''abc123.instance.test.'', Qtype = TypeSRV, Qclass = ClassINET\<rparr> emptyReply)"
  by (simp add: handleQuestion_def parse_defs createRecordsForInstances_def const_defs
      testLib_def questionRcode_def questionFailed_def)

subsection \<open>Protocol filter\<close>

text \<open>
  Claim C6. A service query whose tokens hold the protocol filter \<open>protocol\<close>, on which
  the call of the discovery client succeeds with \<open>clientResult\<close>, resolves to exactly the
  instances of \<open>clientResult\<close> whose endpoint type equals \<open>protocol\<close>, in their order in
  \<open>clientResult\<close>, and leaves the response untouched. A list that is empty after the
  filter is no error: record synthesis on it returns no error and adds no record.
\<close>

theorem protocol_filter_is_stable_filter:
  assumes "splitTagsProtocol tagOrProtocol [] [] = Some (protocol, tags)"
    and "protocol \<noteq> []"
    and "DiscoveryClient cfg \<lparr>ServiceName = serviceName, Tags = tags\<rparr> = Inr clientResult"
  shows "retrieveInstancesForServiceQuery cfg serviceName response tagOrProtocol =
           (Inr (filter (\<lambda>i. Type (Endpoint i) = protocol) clientResult), response)
         \<and> createRecordsForInstances lib cfg g question response [] =
             (None, response\<lparr>Rcode := RcodeNameError\<rparr>, g)"
  using assms
  by (simp add: retrieveInstancesForServiceQuery_def applyProtocolFilter_filter
        createRecordsForInstances_def SetRcode_def)

theorem protocol_filter_is_stable_filter_witness:
  "splitTagsProtocol [''http''] [] [] = Some (''http'', [])
   \<and> retrieveInstancesForServiceQuery (testConfig [reviews2, reviews1, reviews2] ''test.'')
       ''reviews'' emptyReply [''http''] = (Inr [reviews1], emptyReply)
   \<and> retrieveInstancesForServiceQuery (testConfig [reviews2, reviews1, reviews2] ''test.'')
       ''reviews'' emptyReply [''udp''] = (Inr [], emptyReply)"
proof -
  have c: "DiscoveryClient (testConfig [reviews2, reviews1, reviews2] ''test.'')
             \<lparr>ServiceName = ''reviews'', Tags = []\<rparr> = Inr [reviews2, reviews1, reviews2]"
    by (simp add: testConfig_def testClient_def)
  have s1: "splitTagsProtocol [''http''] [] [] = Some (''http'', [])" by simp
  have s2: "splitTagsProtocol [''udp''] [] [] = Some (''udp'', [])" by simp
  have n1: "''http'' \<noteq> []" by simp
  have n2: "''udp'' \<noteq> []" by simp
  show ?thesis
    using protocol_filter_is_stable_filter [OF s1 n1 c, of emptyReply]
      protocol_filter_is_stable_filter [OF s2 n2 c, of emptyReply] s1
    by (simp add: reviews1_def reviews2_def)
qed

subsection \<open>No answer records\<close>

text \<open>
  Claim C7. A question of class INET and of type A, AAAA or SRV whose lookup returns a
  list of instances reaches record synthesis. When synthesis produces no answer record
  (the list is empty, or no instance of it has an endpoint that parses, or none of the
  parsed instances yields a record), the handler sets the response code to name error and
  returns without an error; the code is not server failure.
\<close>

theorem zero_answers_is_name_error:
  assumes "Qclass question = ClassINET"
    and "Qtype question = TypeA \<or> Qtype question = TypeAAAA \<or> Qtype question = TypeSRV"
    and "retrieveServices lib cfg question response = Return (Inr serviceInstances, response')"
    and "serviceInstances = [] \<or> parsedInstances lib serviceInstances = []
         \<or> fst (buildRecords lib cfg question serviceInstances [] []) = []"
  shows "handleQuestion lib cfg g question response =
           Return (None, response'\<lparr>Rcode := RcodeNameError\<rparr>, g)
         \<and> questionRcode (handleQuestion lib cfg g question response) \<noteq> Some RcodeServerFailure
         \<and> \<not> questionFailed (handleQuestion lib cfg g question response)"
proof -
  have z: "fst (buildRecords lib cfg question serviceInstances [] []) = []"
    using assms(4) buildRecords_none_parsed [of lib serviceInstances cfg question "[]" "[]"]
    by auto
  have h: "handleQuestion lib cfg g question response =
             Return (None, response'\<lparr>Rcode := RcodeNameError\<rparr>, g)"
    using assms(1,2,3) createRecordsForInstances_none [OF z, of g response']
    by (auto simp add: handleQuestion_def)
  show ?thesis by (simp add: h questionRcode_def questionFailed_def)
qed

theorem zero_answers_is_name_error_witness:
  "handleQuestion testLib (testConfig [reviews3] ''test.'') testRng
     \<lparr>Name = ''reviews.service.test.'', Qtype = TypeA, Qclass = ClassINET\<rparr> emptyReply =
     Return (None, emptyReply\<lparr>Rcode := RcodeNameError\<rparr>, testRng)
   \<and> handleQuestion testLib (testConfig [reviews2] ''test.'') testRng
     \<lparr>Name = ''reviews.service.test.'', Qtype = TypeA, Qclass = ClassINET\<rparr> emptyReply =
     Return (None, emptyReply\<lparr>Rcode := RcodeNameError\<rparr>, testRng)"
proof -
  let ?q = "\<lparr>Name = ''reviews.service.test.'', Qtype = TypeA, Qclass = ClassINET\<rparr>"
  have a: "Qclass ?q = ClassINET" by simp
  have b: "Qtype ?q = TypeA \<or> Qtype ?q = TypeAAAA \<or> Qtype ?q = TypeSRV" by simp
  have c3: "retrieveServices testLib (testConfig [reviews3] ''test.'') ?q emptyReply =
             Return (Inr [reviews3], emptyReply)"
    by (simp add: parse_defs testLib_def testConfig_def testClient_def const_defs)
  have c2: "retrieveServices testLib (testConfig [reviews2] ''test.'') ?q emptyReply =
             Return (Inr [reviews2], emptyReply)"
    by (simp add: parse_defs testLib_def testConfig_def testClient_def const_defs)
  have d3: "[reviews3] = [] \<or> parsedInstances testLib [reviews3] = []
         \<or> fst (buildRecords testLib (testConfig [reviews3] ''test.'') ?q [reviews3] [] []) = []"
    by (simp add: splitHostPort_def splitHostPortTCPUDP_def testLib_def reviews3_def
        testParseIP_def)
  have d2: "[reviews2] = [] \<or> parsedInstances testLib [reviews2] = []
         \<or> fst (buildRecords testLib (testConfig [reviews2] ''test.'') ?q [reviews2] [] []) = []"
    by (simp add: splitHostPort_def splitHostPortTCPUDP_def testLib_def reviews2_def
        testParseIP_def Atoi_def isDigit_def const_defs To4_def v4InV6Prefix_def)
  show ?thesis
    using zero_answers_is_name_error [OF a b c3 d3, of testRng]
      zero_answers_is_name_error [OF a b c2 d2, of testRng]
    by simp
qed

subsection \<open>Endpoint address and port\<close>

text \<open>
  Claim C8. An endpoint of type tcp or udp is parsed by \<open>splitHostPortTCPUDP\<close>: when the
  value has no port (\<open>SplitHostPort\<close> fails) the whole value is the host and the port is
  0; when it splits into host and port the port is the number read from the port text;
  a host that is no IP literal makes the extraction fail, and an instance whose
  extraction fails is skipped by the record loop, which goes on with the next instance.
  An endpoint of type http or https is parsed by \<open>splitHostPortHTTP\<close>: a value with
  neither prefix is parsed as the value with \<^verbatim>\<open>http://\<close> in front; when the host of the URL
  has no port, the port is 80 for a value with the prefix \<^verbatim>\<open>http://\<close> (or with no prefix)
  and 443 for a value with the prefix \<^verbatim>\<open>https://\<close>.
\<close>

theorem endpoint_address_and_port:
  "(Type endpoint = ''tcp'' \<or> Type endpoint = ''udp'' \<longrightarrow>
      splitHostPort lib endpoint = splitHostPortTCPUDP lib (Value endpoint))
   \<and> (Type endpoint = ''http'' \<or> Type endpoint = ''https'' \<longrightarrow>
      splitHostPort lib endpoint = splitHostPortHTTP lib (Value endpoint))
   \<and> (SplitHostPort lib v = None \<longrightarrow> ParseIP lib v \<noteq> [] \<longrightarrow>
      splitHostPortTCPUDP lib v = Inr (ParseIP lib v, 0))
   \<and> (SplitHostPort lib v = Some (host, port) \<longrightarrow> ParseIP lib host \<noteq> [] \<longrightarrow>
      Atoi port = Some n \<longrightarrow>
      splitHostPortTCPUDP lib v = Inr (ParseIP lib host, word_of_int n))
   \<and> (ParseIP lib (case SplitHostPort lib v of None \<Rightarrow> v | Some (h, p) \<Rightarrow> h) = [] \<longrightarrow>
      splitHostPortTCPUDP lib v = Inl (CouldNotParseIP v))
   \<and> (splitHostPort lib (Endpoint serviceInstance) = Inl e \<longrightarrow>
      buildRecords lib cfg question (serviceInstance # rest) answer extra =
        buildRecords lib cfg question rest answer extra)
   \<and> (\<not> HasPrefix v ''http://'' \<longrightarrow> \<not> HasPrefix v ''https://'' \<longrightarrow>
      splitHostPortHTTP lib v = splitHostPortHTTP lib (''http://'' @ v))
   \<and> (HasPrefix v ''http://'' \<longrightarrow> urlParseHost lib v = Some urlHost \<longrightarrow>
      SplitHostPort lib urlHost = None \<longrightarrow> ParseIP lib urlHost \<noteq> [] \<longrightarrow>
      splitHostPortHTTP lib v = Inr (ParseIP lib urlHost, 80))
   \<and> (HasPrefix v ''https://'' \<longrightarrow> urlParseHost lib v = Some urlHost \<longrightarrow>
      SplitHostPort lib urlHost = None \<longrightarrow> ParseIP lib urlHost \<noteq> [] \<longrightarrow>
      splitHostPortHTTP lib v = Inr (ParseIP lib urlHost, 443))"
proof -
  have a: "Type endpoint = ''tcp'' \<or> Type endpoint = ''udp'' \<longrightarrow>
      splitHostPort lib endpoint = splitHostPortTCPUDP lib (Value endpoint)"
    by (simp add: splitHostPort_def)
  have b: "Type endpoint = ''http'' \<or> Type endpoint = ''https'' \<longrightarrow>
      splitHostPort lib endpoint = splitHostPortHTTP lib (Value endpoint)"
    by (auto simp add: splitHostPort_def)
  show ?thesis
    using a b splitHostPortTCPUDP_no_port [of lib v] splitHostPortTCPUDP_port [of lib v host port n]
      splitHostPortTCPUDP_bad_host [of lib v]
      buildRecords_skip [of lib serviceInstance e cfg question rest answer extra]
      splitHostPortHTTP_default_scheme [of v lib]
      splitHostPortHTTP_http_no_port [of v lib urlHost]
      splitHostPortHTTP_https_no_port [of v lib urlHost]
    by blast
qed

theorem endpoint_address_and_port_witness:
  "splitHostPort testLib \<lparr>Type = ''tcp'', Value = ''10.0.0.5''\<rparr> =
     Inr ([0, 0, 0, 0, 0, 0, 0, 0, 0, 0, 0xff, 0xff, 10, 0, 0, 5], 0)
   \<and> splitHostPort testLib \<lparr>Type = ''udp'', Value = ''10.0.0.5:9090''\<rparr> =
     Inr ([0, 0, 0, 0, 0, 0, 0, 0, 0, 0, 0xff, 0xff, 10, 0, 0, 5], 9090)
   \<and> splitHostPort testLib \<lparr>Type = ''tcp'', Value = ''localhost:8080''\<rparr> =
     Inl (CouldNotParseIP ''localhost:8080'')
   \<and> splitHostPort testLib \<lparr>Type = ''http'', Value = ''http://10.0.0.5''\<rparr> =
     Inr ([0, 0, 0, 0, 0, 0, 0, 0, 0, 0, 0xff, 0xff, 10, 0, 0, 5], 80)
   \<and> splitHostPort testLib \<lparr>Type = ''https'', Value = ''https://10.0.0.5''\<rparr> =
     Inr ([0, 0, 0, 0, 0, 0, 0, 0, 0, 0, 0xff, 0xff, 10, 0, 0, 5], 443)
   \<and> splitHostPortHTTP testLib ''10.0.0.5'' = splitHostPortHTTP testLib ''http://10.0.0.5''"
proof -
  have sp: "SplitHostPort testLib ''10.0.0.5'' = None"
    "SplitHostPort testLib ''10.0.0.5:9090'' = Some (''10.0.0.5'', ''9090'')"
    "SplitHostPort testLib ''localhost:8080'' = Some (''localhost'', ''8080'')"
    by (simp_all add: testLib_def)
  have ip: "ParseIP testLib ''10.0.0.5'' = [0, 0, 0, 0, 0, 0, 0, 0, 0, 0, 0xff, 0xff, 10, 0, 0, 5]"
    "ParseIP testLib ''localhost'' = []"
    by (simp_all add: testLib_def testParseIP_def v4InV6Prefix_def eval_nat_numeral)
  have at: "Atoi ''9090'' = Some 9090" by (simp add: Atoi_def isDigit_def)
  have ur: "urlParseHost testLib ''http://10.0.0.5'' = Some ''10.0.0.5''"
    "urlParseHost testLib ''https://10.0.0.5'' = Some ''10.0.0.5''"
    by (simp_all add: testLib_def testUrlParseHost_def HasPrefix_def)
  have hp: "HasPrefix ''http://10.0.0.5'' ''http://''" "HasPrefix ''https://10.0.0.5'' ''https://''"
    "\<not> HasPrefix ''10.0.0.5'' ''http://''" "\<not> HasPrefix ''10.0.0.5'' ''https://''"
    by (simp_all add: HasPrefix_def)
  note t1 = endpoint_address_and_port [where lib = testLib
      and endpoint = "\<lparr>Type = ''tcp'', Value = ''10.0.0.5''\<rparr>" and v = "''10.0.0.5''"]
  note t2 = endpoint_address_and_port [where lib = testLib
      and endpoint = "\<lparr>Type = ''udp'', Value = ''10.0.0.5:9090''\<rparr>" and v = "''10.0.0.5:9090''"
      and host = "''10.0.0.5''" and port = "''9090''" and n = 9090]
  note t3 = endpoint_address_and_port [where lib = testLib
      and endpoint = "\<lparr>Type = ''tcp'', Value = ''localhost:8080''\<rparr>"
      and v = "''localhost:8080''"]
  note t4 = endpoint_address_and_port [where lib = testLib
      and endpoint = "\<lparr>Type = ''http'', Value = ''http://10.0.0.5''\<rparr>"
      and v = "''http://10.0.0.5''" and urlHost = "''10.0.0.5''"]
  note t5 = endpoint_address_and_port [where lib = testLib
      and endpoint = "\<lparr>Type = ''https'', Value = ''https://10.0.0.5''\<rparr>"
      and v = "''https://10.0.0.5''" and urlHost = "''10.0.0.5''"]
  have c1: "splitHostPort testLib \<lparr>Type = ''tcp'', Value = ''10.0.0.5''\<rparr> =
     Inr ([0, 0, 0, 0, 0, 0, 0, 0, 0, 0, 0xff, 0xff, 10, 0, 0, 5], 0)"
    using t1 sp(1) ip(1) by simp
  have c2: "splitHostPort testLib \<lparr>Type = ''udp'', Value = ''10.0.0.5:9090''\<rparr> =
     Inr ([0, 0, 0, 0, 0, 0, 0, 0, 0, 0, 0xff, 0xff, 10, 0, 0, 5], 9090)"
    using t2 sp(2) ip(1) at by simp
  have c3: "splitHostPort testLib \<lparr>Type = ''tcp'', Value = ''localhost:8080''\<rparr> =
     Inl (CouldNotParseIP ''localhost:8080'')"
    using t3 sp(3) ip(2) by simp
  have c4: "splitHostPort testLib \<lparr>Type = ''http'', Value = ''http://10.0.0.5''\<rparr> =
     Inr ([0, 0, 0, 0, 0, 0, 0, 0, 0, 0, 0xff, 0xff, 10, 0, 0, 5], 80)"
    using t4 hp(1) ur(1) sp(1) ip(1) by simp
  have c5: "splitHostPort testLib \<lparr>Type = ''https'', Value = ''https://10.0.0.5''\<rparr> =
     Inr ([0, 0, 0, 0, 0, 0, 0, 0, 0, 0, 0xff, 0xff, 10, 0, 0, 5], 443)"
    using t5 hp(2) ur(2) sp(1) ip(1) by simp
  have c6: "splitHostPortHTTP testLib ''10.0.0.5'' = splitHostPortHTTP testLib ''http://10.0.0.5''"
    using t1 hp(3) hp(4) by simp
  show ?thesis using c1 c2 c3 c4 c5 c6 by simp
qed

subsection \<open>Shuffling\<close>

text \<open>
  Claim C9. \<open>shuffleRecords\<close> returns a permutation of its input. Hence, for a fixed
  discovery client, fixed library functions and a fixed request, two runs of the pipeline
  that differ only in the draws of the random generator both panic or both reply, and
  the two replies have the same response code, the same multiset of answer records and
  the same multiset of extra records.
\<close>

theorem same_records_for_any_shuffle:
  "mset (fst (shuffleRecords g records)) = mset records
   \<and> replyView (handleRequest lib cfg g1 request) =
       replyView (handleRequest lib cfg g2 request)"
  using shuffleRecords_mset [of g records]
    handleQuestions_any_draws [of _ _ lib cfg g1 "Req_Question request" g2]
  by (simp add: handleRequest_def)

theorem same_records_for_any_shuffle_witness:
  "mset (fst (shuffleRecords testRng [1 :: nat, 2, 3])) = mset [1, 2, 3]
   \<and> fst (shuffleRecords testRng [1 :: nat, 2, 3]) \<noteq> [1, 2, 3]
   \<and> replyView (handleRequest testLib (testConfig [reviews1, reviews2] ''test.'') testRng
         \<lparr>Req_Question = [\<lparr>Name = ''reviews.service.test.'', Qtype = TypeSRV,
                             Qclass = ClassINET\<rparr>], Req_Extra = []\<rparr>) =
       replyView (handleRequest testLib (testConfig [reviews1, reviews2] ''test.'') (\<lambda>k. k)
         \<lparr>Req_Question = [\<lparr>Name = ''reviews.service.test.'', Qtype = TypeSRV,
                             Qclass = ClassINET\<rparr>], Req_Extra = []\<rparr>)"
proof -
  have s: "fst (shuffleRecords testRng [1 :: nat, 2, 3]) \<noteq> [1, 2, 3]"
    by (simp add: shuffleRecords_def shuffleStep_def Intn_def testRng_def upt_rec)
  show ?thesis
    using same_records_for_any_shuffle [of testRng "[1 :: nat, 2, 3]" testLib
        "testConfig [reviews1, reviews2] ''test.''" testRng _ "\<lambda>k. k"] s
    by simp
qed

subsection \<open>Several questions in one request\<close>

text \<open>
  Claim C10. Let the first question of a request reach record synthesis and yield no
  answer record, and let the next question reach synthesis and yield the answer records
  \<open>answer2\<close>. The handler of the first question sets the code name error and returns no
  error, so the loop goes on with the second question (and after it with the rest), and
  the second question sets the code success: after these two questions the reply holds
  the code success and the records of the second question.
\<close>

theorem later_question_overwrites_name_error:
  assumes "Qclass q1 = ClassINET"
    and "Qtype q1 = TypeA \<or> Qtype q1 = TypeAAAA \<or> Qtype q1 = TypeSRV"
    and "retrieveServices lib cfg q1 response = Return (Inr instances1, response1)"
    and "fst (buildRecords lib cfg q1 instances1 [] []) = []"
    and "Qclass q2 = ClassINET"
    and "Qtype q2 = TypeA \<or> Qtype q2 = TypeAAAA \<or> Qtype q2 = TypeSRV"
    and "retrieveServices lib cfg q2 (response1\<lparr>Rcode := RcodeNameError\<rparr>) =
           Return (Inr instances2, response2)"
    and "buildRecords lib cfg q2 instances2 [] [] = (answer2, extra2)"
    and "answer2 \<noteq> []"
  shows "handleQuestion lib cfg g q1 response =
           Return (None, response1\<lparr>Rcode := RcodeNameError\<rparr>, g)
     \<and> handleQuestions lib cfg g (q1 # q2 # rest) response =
         handleQuestions lib cfg
           (snd (snd (createRecordsForInstances lib cfg g q2 response2 instances2))) rest
           (fst (snd (createRecordsForInstances lib cfg g q2 response2 instances2)))
     \<and> replyView (handleQuestions lib cfg g [q1, q2] response) =
         Return (RcodeSuccess, mset (Answer response2) + mset answer2,
                 mset (Extra response2) + mset extra2,
                 Authoritative response2, RecursionAvailable response2)"
proof -
  have h1: "handleQuestion lib cfg g q1 response =
              Return (None, response1\<lparr>Rcode := RcodeNameError\<rparr>, g)"
    using assms(1,2,3) createRecordsForInstances_none [OF assms(4), of g response1]
    by (auto simp add: handleQuestion_def)
  obtain e m g' where c: "createRecordsForInstances lib cfg g q2 response2 instances2 = (e, m, g')"
    by (cases "createRecordsForInstances lib cfg g q2 response2 instances2")
  have e: "e = None" and v: "msgView m =
         (RcodeSuccess, mset (Answer response2) + mset answer2,
          mset (Extra response2) + mset extra2,
          Authoritative response2, RecursionAvailable response2)"
    using createRecordsForInstances_view [OF assms(8), of g response2] assms(9)
    by (simp_all add: c)
  have h2: "handleQuestion lib cfg g q2 (response1\<lparr>Rcode := RcodeNameError\<rparr>) =
              Return (None, m, g')"
    using assms(5,6,7) c e by (auto simp add: handleQuestion_def)
  show ?thesis
    by (simp add: h1 h2 c replyView_def v)
qed

theorem later_question_overwrites_name_error_witness:
  "replyView (handleRequest testLib (testConfig [reviews1] ''test.'') testRng
     \<lparr>Req_Question =
        [\<lparr>Name = ''orders.service.test.'', Qtype = TypeA, Qclass = ClassINET\<rparr>,
         \<lparr>Name = ''reviews.service.test.'', Qtype = TypeA, Qclass = ClassINET\<rparr>],
      Req_Extra = []\<rparr>) =
   Return (RcodeSuccess,
           {# RR_A \<lparr>Hdr_Name = ''reviews.service.test.'', Rrtype = TypeA, Class = ClassINET,
                     Ttl = 0\<rparr> [192, 168, 1, 10] #},
           {#}, True, False)"
proof -
  let ?q1 = "\<lparr>Name = ''orders.service.test.'', Qtype = TypeA, Qclass = ClassINET\<rparr>"
  let ?q2 = "\<lparr>Name = ''reviews.service.test.'', Qtype = TypeA, Qclass = ClassINET\<rparr>"
  let ?cfg = "testConfig [reviews1] ''test.''"
  have a1: "Qclass ?q1 = ClassINET" and a2: "Qclass ?q2 = ClassINET" by simp_all
  have b1: "Qtype ?q1 = TypeA \<or> Qtype ?q1 = TypeAAAA \<or> Qtype ?q1 = TypeSRV"
    and b2: "Qtype ?q2 = TypeA \<or> Qtype ?q2 = TypeAAAA \<or> Qtype ?q2 = TypeSRV" by simp_all
  have r1: "retrieveServices testLib ?cfg ?q1 emptyReply = Return (Inr [], emptyReply)"
    by (simp add: parse_defs testLib_def testConfig_def testClient_def const_defs)
  have z1: "fst (buildRecords testLib ?cfg ?q1 [] [] []) = []" by simp
  have r2: "retrieveServices testLib ?cfg ?q2 (emptyReply\<lparr>Rcode := RcodeNameError\<rparr>) =
              Return (Inr [reviews1], emptyReply\<lparr>Rcode := RcodeNameError\<rparr>)"
    by (simp add: parse_defs testLib_def testConfig_def testClient_def const_defs)
  have s: "splitHostPort testLib (Endpoint reviews1) =
             Inr (v4InV6Prefix @ [192, 168, 1, 10], 9080)"
    by (simp add: splitHostPort_def splitHostPortTCPUDP_def splitHostPortHTTP_def HasPrefix_def
        test_defs Atoi_def isDigit_def)
  have n2: "buildRecords testLib ?cfg ?q2 [reviews1] [] [] =
              ([RR_A \<lparr>Hdr_Name = ''reviews.service.test.'', Rrtype = TypeA, Class = ClassINET,
                       Ttl = 0\<rparr> [192, 168, 1, 10]], [])"
    by (simp add: s To4_def v4InV6Prefix_def createARecord_def)
  have ne: "[RR_A \<lparr>Hdr_Name = ''reviews.service.test.'', Rrtype = TypeA, Class = ClassINET,
                       Ttl = 0\<rparr> [192, 168, 1, 10]] \<noteq> []" by simp
  note t = later_question_overwrites_name_error [OF a1 b1 r1 z1 a2 b2 r2 n2 ne, of testRng,
      THEN conjunct2, THEN conjunct2]
  show ?thesis
    using t by (simp add: handleRequest_def emptyReply_def)
qed


end
